theory Spec2Isabelle
  imports Complex_Main
begin

section \<open>Python values\<close>

text \<open>
  The program is \<^verbatim>\<open>src/app.py\<close>. Its numbers are Python \<^verbatim>\<open>int\<close>s (modelled as \<open>int\<close>)
  and Python \<^verbatim>\<open>float\<close>s. A float is modelled as the real number it stands for: sums,
  differences, products, quotients and comparisons are exact, so the rounding error of
  IEEE doubles, and the values \<^verbatim>\<open>nan\<close> and \<^verbatim>\<open>inf\<close>, are outside the model. Every concrete
  input used below is a number a double holds exactly, and no rounding made on it is
  near a tie, so that the doubles give the same results there.

  A Python \<^verbatim>\<open>str\<close> is modelled as the list of the bytes of its UTF-8 encoding.
\<close>

datatype py_error =
  RequestError      \<comment> \<open>\<^verbatim>\<open>requests.get\<close>, \<^verbatim>\<open>raise_for_status\<close> or \<^verbatim>\<open>r.json()\<close> raised\<close>
  | TypeError       \<comment> \<open>\<^verbatim>\<open>float(None)\<close>\<close>
  | KeyError        \<comment> \<open>\<^verbatim>\<open>d[k]\<close> on a missing key\<close>
  | IntegrityError  \<comment> \<open>SQLite: NULL into a NOT NULL column\<close>

text \<open>
  \<^verbatim>\<open>round(x)\<close> of a float: the nearest integer, a tie going to the even neighbour.
\<close>

definition py_round :: "real \<Rightarrow> int" where
  "py_round x =
     (let f = \<lfloor>x\<rfloor>; d = x - of_int f in
      if d < 1 / 2 then f
      else if 1 / 2 < d then f + 1
      else if even f then f else f + 1)"

text \<open>\<^verbatim>\<open>round(x, 1)\<close> and \<^verbatim>\<open>round(x, 2)\<close> of a float: a float again.\<close>

definition py_round1 :: "real \<Rightarrow> real" where
  "py_round1 x = of_int (py_round (x * 10)) / 10"

definition py_round2 :: "real \<Rightarrow> real" where
  "py_round2 x = of_int (py_round (x * 100)) / 100"

text \<open>\<^verbatim>\<open>int(x)\<close> of a float truncates towards zero.\<close>

definition py_int :: "real \<Rightarrow> int" where
  "py_int x = (if 0 \<le> x then \<lfloor>x\<rfloor> else \<lceil>x\<rceil>)"

section \<open>The ESP32 device and the tank geometry\<close>

text \<open>
  One answer of the device to \<^verbatim>\<open>GET ESP32_ENDPOINT\<close>, after \<^verbatim>\<open>r.json()\<close>: for each key
  the functions below read, \<open>None\<close> when the key is missing or \<^verbatim>\<open>null\<close>, and the number
  \<^verbatim>\<open>float()\<close> makes of its value otherwise. Every function that reads the device sends
  a request of its own; the outcome of a request is \<open>None\<close> when anything in it raised
  (no connection, a timeout, an HTTP error status, a body that is not JSON, a value
  \<^verbatim>\<open>float()\<close> refuses).
\<close>

record esp32_json =
  j_soil_pct :: "real option"
  j_temp_c :: "real option"
  j_humidity_pct :: "real option"
  j_ultrasonic_cm :: "real option"

definition TANK_H1_CM :: real where "TANK_H1_CM = 95 / 10"
definition TANK_R_CM :: real where "TANK_R_CM = 485 / 100"
definition PI_CONST :: real where "PI_CONST = 22 / 7"

text \<open>The dict \<^verbatim>\<open>get_tank_snapshot\<close> returns; its keys are the field names.\<close>

record tank_snapshot =
  ultrasonic_cm :: real
  height_cm :: real
  volume_cm3 :: int
  capacity_cm3 :: int
  percent :: int

text \<open>
  \<^verbatim>\<open>get_tank_snapshot\<close> (lines 230-258). It raises when the request fails, and
  \<^verbatim>\<open>float(j.get("ultrasonic_cm"))\<close> raises \<^verbatim>\<open>TypeError\<close> when the key is missing.
\<close>

definition get_tank_snapshot :: "esp32_json option \<Rightarrow> py_error + tank_snapshot" where
  "get_tank_snapshot resp =
     (case resp of
        None \<Rightarrow> Inl RequestError
      | Some j \<Rightarrow>
          (case j_ultrasonic_cm j of
             None \<Rightarrow> Inl TypeError
           | Some u \<Rightarrow>
               (let H1 = TANK_H1_CM;
                    R = TANK_R_CM;
                    PI = PI_CONST;
                    H = max 0 (min H1 (H1 - u));
                    base_area = PI * R * R;
                    vol_cm3 = base_area * H;
                    cap_cm3 = base_area * H1;
                    pct = (H / H1) * 100
                in Inr \<lparr>ultrasonic_cm = py_round2 u,
                         height_cm = py_round2 H,
                         volume_cm3 = py_round vol_cm3,
                         capacity_cm3 = py_round cap_cm3,
                         percent = py_round pct\<rparr>)))"

section \<open>Strings of numbers, dicts\<close>

text \<open>\<^verbatim>\<open>str(n)\<close> of an \<^verbatim>\<open>int\<close>, which is what \<^verbatim>\<open>%(key)s\<close> prints for it.\<close>

definition digit_char :: "nat \<Rightarrow> char" where
  "digit_char n = ''0123456789'' ! n"

function str_nat :: "nat \<Rightarrow> string" where
  "str_nat n = (if n < 10 then [digit_char n] else str_nat (n div 10) @ [digit_char (n mod 10)])"
  by pat_completeness auto
termination
  by (relation "measure id") auto

declare str_nat.simps [simp del]

definition str_int :: "int \<Rightarrow> string" where
  "str_int i = (if i < 0 then CHR ''-'' # str_nat (nat (- i)) else str_nat (nat i))"

text \<open>
  A number whose Python type matters because it is printed: \<^verbatim>\<open>str\<close> of an int is its
  decimal digits, \<^verbatim>\<open>str\<close> of a float is Python's shortest round-trip representation,
  which is not code of this repository and is taken as a parameter \<open>repr\<close>.
\<close>

datatype pynum = PInt int | PFloat real

fun num_val :: "pynum \<Rightarrow> real" where
  "num_val (PInt i) = of_int i"
| "num_val (PFloat x) = x"

fun str_num :: "(real \<Rightarrow> string) \<Rightarrow> pynum \<Rightarrow> string" where
  "str_num repr (PInt i) = str_int i"
| "str_num repr (PFloat x) = repr x"

text \<open>
  The values an alert dict holds. A dict is modelled as the list of its items in
  insertion order; \<open>map_of d k\<close> is \<^verbatim>\<open>d.get(k)\<close>.
\<close>

datatype pyval = VNone | VStr string | VInt int | VFloat real

type_synonym alert = "(string \<times> pyval) list"

definition without_key :: "string \<Rightarrow> alert \<Rightarrow> alert" where
  "without_key k d = filter (\<lambda>item. fst item \<noteq> k) d"

text \<open>
  The dict literal every alert of the rain tree and of the irrigation tree is written
  with: the same eight keys in the same order, each value a string.
\<close>

definition alert_dict ::
  "string \<Rightarrow> string \<Rightarrow> string \<Rightarrow> string \<Rightarrow> string \<Rightarrow> string \<Rightarrow> string \<Rightarrow> string \<Rightarrow> alert" where
  "alert_dict kind title message severity category timestamp recommendation icon =
     [(''type'', VStr kind),
      (''title'', VStr title),
      (''message'', VStr message),
      (''severity'', VStr severity),
      (''category'', VStr category),
      (''timestamp'', VStr timestamp),
      (''recommendation'', VStr recommendation),
      (''icon'', VStr icon)]"

text \<open>The non-ASCII characters of the program's string literals, in UTF-8.\<close>

definition degree_sign :: string where "degree_sign = [CHR 0xC2, CHR 0xB0]"
definition superscript_three :: string where "superscript_three = [CHR 0xC2, CHR 0xB3]"
definition variation_selector :: string where "variation_selector = [CHR 0xEF, CHR 0xB8, CHR 0x8F]"
definition icon_rain_cloud :: string where "icon_rain_cloud = [CHR 0xF0, CHR 0x9F, CHR 0x8C, CHR 0xA7]"
definition icon_umbrella :: string where "icon_umbrella = [CHR 0xE2, CHR 0x98, CHR 0x94]"
definition icon_fog :: string where "icon_fog = [CHR 0xF0, CHR 0x9F, CHR 0x8C, CHR 0xAB]"
definition icon_sun_small_cloud :: string where "icon_sun_small_cloud = [CHR 0xF0, CHR 0x9F, CHR 0x8C, CHR 0xA4]"
definition icon_sun_rain_cloud :: string where "icon_sun_rain_cloud = [CHR 0xF0, CHR 0x9F, CHR 0x8C, CHR 0xA6]"
definition icon_sun :: string where "icon_sun = [CHR 0xE2, CHR 0x98, CHR 0x80]"
definition icon_droplet :: string where "icon_droplet = [CHR 0xF0, CHR 0x9F, CHR 0x92, CHR 0xA7]"
definition icon_warning :: string where "icon_warning = [CHR 0xE2, CHR 0x9A, CHR 0xA0]"
definition icon_bell :: string where "icon_bell = [CHR 0xF0, CHR 0x9F, CHR 0x94, CHR 0x94]"

section \<open>The upstream fetches\<close>

text \<open>
  The keys \<^verbatim>\<open>get_weather_data\<close> reads from the weather provider's answer; \<open>rain_1h\<close> is
  \<^verbatim>\<open>w.get("rain", {}).get("1h", 0)\<close>, \<open>None\<close> when it is missing or \<^verbatim>\<open>null\<close>. The outcome of
  the request is \<open>None\<close> when anything raised.
\<close>

record owm_current =
  main_temp :: real
  main_humidity :: real
  rain_1h :: "pynum option"
  wind_speed :: real

text \<open>The dict \<^verbatim>\<open>get_weather_data\<close> returns.\<close>

record weather =
  w_temperature :: int
  w_humidity :: int
  w_rainfall :: pynum
  w_wind_speed :: int

text \<open>\<^verbatim>\<open>x or 0\<close> and \<^verbatim>\<open>round(x, 1)\<close>, which leaves an int an int.\<close>

definition or_zero :: "pynum option \<Rightarrow> pynum" where
  "or_zero v = (case v of None \<Rightarrow> PInt 0 | Some n \<Rightarrow> if num_val n = 0 then PInt 0 else n)"

fun round1_num :: "pynum \<Rightarrow> pynum" where
  "round1_num (PInt i) = PInt i"
| "round1_num (PFloat x) = PFloat (py_round1 x)"

definition get_weather_data :: "owm_current option \<Rightarrow> weather" where
  "get_weather_data resp =
     (case resp of
        None \<Rightarrow> \<lparr>w_temperature = 22, w_humidity = 70, w_rainfall = PInt 0, w_wind_speed = 5\<rparr>
      | Some w \<Rightarrow>
          \<lparr>w_temperature = py_round (main_temp w),
           w_humidity = py_round (main_humidity w),
           w_rainfall = round1_num (or_zero (rain_1h w)),
           w_wind_speed = py_round (wind_speed w)\<rparr>)"

text \<open>
  One item of the provider's forecast list: \<open>dt_is_today\<close> is
  \<^verbatim>\<open>datetime.fromtimestamp(item["dt"]).date() == today\<close>, \<open>dt_hhmm\<close> is
  \<^verbatim>\<open>dt.strftime("%H:%M")\<close>, \<open>rain_3h\<close> is \<^verbatim>\<open>item.get("rain", {}).get("3h", 0)\<close>.
\<close>

record owm_forecast_item =
  dt_is_today :: bool
  dt_hhmm :: string
  rain_3h :: "real option"
  weather_description :: string
  item_humidity :: real

record forecast_point =
  f_time :: string
  f_rain :: real
  f_description :: string
  f_humidity :: real

definition get_weather_forecast :: "owm_forecast_item list option \<Rightarrow> forecast_point list" where
  "get_weather_forecast resp =
     (case resp of
        None \<Rightarrow> []
      | Some items \<Rightarrow>
          map (\<lambda>item. \<lparr>f_time = dt_hhmm item,
                       f_rain = (case rain_3h item of None \<Rightarrow> 0 | Some x \<Rightarrow> x),
                       f_description = weather_description item,
                       f_humidity = item_humidity item\<rparr>)
              (filter dt_is_today items))"

text \<open>The dict \<^verbatim>\<open>get_soil_data\<close> returns, or \<open>None\<close> when the device is unreachable.\<close>

record soil =
  s_moisture :: real
  s_temperature :: real
  s_humidity :: real

definition float_or_zero :: "real option \<Rightarrow> real" where
  "float_or_zero v = (case v of None \<Rightarrow> 0 | Some x \<Rightarrow> x)"

definition get_soil_data :: "esp32_json option \<Rightarrow> soil option" where
  "get_soil_data resp =
     (case resp of
        None \<Rightarrow> None
      | Some j \<Rightarrow>
          Some \<lparr>s_moisture = float_or_zero (j_soil_pct j),
                s_temperature = float_or_zero (j_temp_c j),
                s_humidity = float_or_zero (j_humidity_pct j)\<rparr>)"

text \<open>
  Everything outside the process that one evaluation reads: the outcome of each request
  (every fetch sends its own), the clock \<^verbatim>\<open>now_utc_iso()\<close>, and Python's \<^verbatim>\<open>str\<close> of a
  float.
\<close>

record world =
  weather_resp :: "owm_current option"
  forecast_resp :: "owm_forecast_item list option"
  soil_resp :: "esp32_json option"
  tank_resp :: "esp32_json option"
  now_utc_iso :: string
  float_repr :: "real \<Rightarrow> string"

text \<open>\<^verbatim>\<open>max((item["rain"] for item in forecast), default=0)\<close>.\<close>

fun max_default0 :: "real list \<Rightarrow> real" where
  "max_default0 [] = 0"
| "max_default0 (x # xs) = fold max xs x"

section \<open>The alert rule trees\<close>

text \<open>
  The helper \<^verbatim>\<open>_(text, **kwargs)\<close> returns \<^verbatim>\<open>text % kwargs\<close>, and \<^verbatim>\<open>text\<close> itself when no
  keyword is given or the formatting raises. Every template below uses only
  \<^verbatim>\<open>%(key)s\<close> and \<^verbatim>\<open>%%\<close> and is given each key it names, so the formatting cannot raise;
  the formatted string is written out as a concatenation.

  \<^verbatim>\<open>check_rain_alert\<close> (lines 290-372). Its last branch tests
  \<^verbatim>\<open>soil_moisture is not None and soil_moisture < 40\<close> and then, in the \<^verbatim>\<open>else\<close>, picks the
  message by \<^verbatim>\<open>soil_moisture is None\<close>; the model makes the two tests one case
  distinction.
\<close>

definition check_rain_alert :: "world \<Rightarrow> alert option" where
  "check_rain_alert env =
     (let forecast = get_weather_forecast (forecast_resp env) in
      if forecast = [] then None
      else
        (let total_rain = sum_list (map f_rain forecast);
             max_rain = max_default0 (map f_rain forecast);
             current_weather = get_weather_data (weather_resp env);
             soil = get_soil_data (soil_resp env);
             soil_moisture = map_option s_moisture soil;
             t = str_int (w_temperature current_weather);
             h = str_int (w_humidity current_weather);
             r = str_num (float_repr env) (w_rainfall current_weather);
             w = str_int (w_wind_speed current_weather);
             ts = now_utc_iso env
         in if 5 < total_rain \<or> 2 < max_rain then
              Some (alert_dict ''rain_alert''
                     (icon_rain_cloud @ '' Heavy Rain Alert'')
                     (''Warning! Heavy rainfall expected today. Current: '' @ t
                        @ degree_sign @ ''C, '' @ h @ ''%, '' @ r @ ''mm, '' @ w @ '' km/h.'')
                     ''high''
                     ''weather''
                     ts
                     ''Cover young plants; delay irrigation.''
                     icon_rain_cloud)
            else if 1 < total_rain \<or> 1 / 2 < max_rain then
              Some (alert_dict ''rain_alert''
                     (icon_umbrella @ '' Rain Expected Today'')
                     (''Rain expected. Conditions: '' @ t
                        @ degree_sign @ ''C, '' @ h @ ''%, '' @ r @ ''mm, '' @ w @ '' km/h.'')
                     ''medium''
                     ''weather''
                     ts
                     ''Skip irrigation today; recheck tomorrow.''
                     icon_umbrella)
            else if 1 / 10 < total_rain then
              Some (alert_dict ''rain_alert''
                     (icon_fog @ '' Uncertain Weather'')
                     (case soil_moisture of
                        None \<Rightarrow> ''Light rain chance.''
                      | Some m \<Rightarrow> ''Light rain chance. Soil '' @ str_int (py_int m) @ ''%.'')
                     ''low''
                     ''weather''
                     ts
                     ''Check soil before irrigating.''
                     icon_fog)
            else
              (case soil_moisture of
                 Some m \<Rightarrow>
                   if m < 40 then
                     Some (alert_dict ''irrigation_alert''
                            (icon_sun_small_cloud @ '' No Rain, Irrigation Needed'')
                            (''No rain expected. Soil '' @ str_int (py_int m) @ ''%.'')
                            ''medium''
                            ''irrigation''
                            ts
                            ''Follow normal irrigation schedule.''
                            icon_sun_small_cloud)
                   else
                     Some (alert_dict ''weather_update''
                            (icon_sun_small_cloud @ '' Good Weather Day'')
                            ''Clear weather; soil moisture adequate.''
                            ''low''
                            ''weather''
                            ts
                            ''Continue regular activities.''
                            icon_sun_small_cloud)
               | None \<Rightarrow>
                   Some (alert_dict ''weather_update''
                          (icon_sun_small_cloud @ '' Good Weather Day'')
                          ''Clear weather.''
                          ''low''
                          ''weather''
                          ts
                          ''Continue regular activities.''
                          icon_sun_small_cloud))))"

text \<open>
  \<^verbatim>\<open>check_water_tank_alert\<close> (lines 380-436): \<open>None\<close> when the snapshot raises, else one
  alert. \<^verbatim>\<open>{**base, ...}\<close> appends the new keys to those of \<^verbatim>\<open>base\<close>.
\<close>

definition check_water_tank_alert :: "world \<Rightarrow> alert option" where
  "check_water_tank_alert env =
     (case get_tank_snapshot (tank_resp env) of
        Inl e \<Rightarrow> None
      | Inr snap \<Rightarrow>
          (let p = percent snap;
               a_cm3 = volume_cm3 snap;
               c_cm3 = capacity_cm3 snap;
               ts = now_utc_iso env;
               msg = ''Water tank is at '' @ str_int p @ ''% ('' @ str_int a_cm3 @ '' cm''
                       @ superscript_three @ '' / '' @ str_int c_cm3 @ '' cm'' @ superscript_three @ '').'';
               base = [(''type'', VStr ''water_alert''),
                       (''category'', VStr ''water''),
                       (''timestamp'', VStr ts),
                       (''message'', VStr msg),
                       (''icon'', VStr icon_droplet)]
           in if 90 \<le> p then
                Some (base @ [(''title'', VStr (icon_droplet @ '' Water Tank Full'')),
                              (''severity'', VStr ''high''),
                              (''recommendation'', VStr ''Turn off supply; check for leaks.'')])
              else if p \<le> 20 then
                Some (base @ [(''title'', VStr (icon_warning @ variation_selector @ '' Water Tank Low'')),
                              (''severity'', VStr ''high''),
                              (''recommendation'', VStr ''Refill immediately.'')])
              else if p \<le> 40 then
                Some (base @ [(''title'', VStr (icon_bell @ '' Water Tank Getting Low'')),
                              (''severity'', VStr ''medium''),
                              (''recommendation'', VStr ''Plan a refill soon.'')])
              else
                Some (base @ [(''title'', VStr (icon_droplet @ '' Water Tank Status Update'')),
                              (''severity'', VStr ''low''),
                              (''recommendation'', VStr ''No immediate action required.'')])))"

text \<open>
  \<^verbatim>\<open>check_weather_irrigation_recommendation\<close> (lines 439-529). The three fetches it calls
  catch their own exceptions, so its \<^verbatim>\<open>except\<close> branch is reached only when a fetch
  raises against its contract. To cover that branch the outcome of each fetch is a
  parameter that may be an exception; \<open>live_fetches\<close> are the outcomes the fetches of
  this program give. \<open>irrigation_try\<close> is the body of the \<^verbatim>\<open>try\<close>: the fetches are made in
  the order weather, soil, forecast, and the first one that raises ends it.
\<close>

record fetches =
  fetch_weather :: "py_error + weather"
  fetch_soil :: "py_error + soil option"
  fetch_forecast :: "py_error + forecast_point list"

definition live_fetches :: "world \<Rightarrow> fetches" where
  "live_fetches env =
     \<lparr>fetch_weather = Inr (get_weather_data (weather_resp env)),
      fetch_soil = Inr (get_soil_data (soil_resp env)),
      fetch_forecast = Inr (get_weather_forecast (forecast_resp env))\<rparr>"

definition irrigation_try :: "fetches \<Rightarrow> string \<Rightarrow> py_error + alert" where
  "irrigation_try fs now =
     (case fetch_weather fs of Inl e \<Rightarrow> Inl e | Inr weather \<Rightarrow>
      case fetch_soil fs of Inl e \<Rightarrow> Inl e | Inr soil \<Rightarrow>
      case fetch_forecast fs of Inl e \<Rightarrow> Inl e | Inr forecast \<Rightarrow>
        (let total_rain = (if forecast \<noteq> [] then sum_list (map f_rain forecast) else 0);
             max_rain = max_default0 (map f_rain forecast);
             t = w_temperature weather;
             h = w_humidity weather;
             curr_rain = num_val (w_rainfall weather);
             wind = w_wind_speed weather;
             sm = map_option s_moisture soil;
             st = map_option s_temperature soil;
             sh = map_option s_humidity soil;
             ts = now;
             wx = str_int t @ degree_sign @ ''C, '' @ str_int h @ ''%, '' @ str_int wind @ '' km/h.''
         in if 5 < total_rain \<or> 2 < max_rain \<or> 1 < curr_rain then
              Inr (alert_dict ''irrigation_recommendation''
                    (icon_rain_cloud @ '' Heavy Rain Alert - No Irrigation'')
                    (case soil of
                       None \<Rightarrow> ''Heavy rain expected. Wx: '' @ wx
                     | Some sl \<Rightarrow> ''Heavy rain expected. Wx: '' @ wx @ '' Soil: ''
                         @ str_int (py_int (s_moisture sl)) @ ''%, ''
                         @ str_int (py_int (s_temperature sl)) @ degree_sign @ ''C, ''
                         @ str_int (py_int (s_humidity sl)) @ ''%.'')
                    ''high''
                    ''irrigation''
                    ts
                    ''Skip irrigation today.''
                    icon_rain_cloud)
            else if 1 < total_rain \<or> 1 / 2 < max_rain \<or> 1 / 10 < curr_rain then
              Inr (alert_dict ''irrigation_recommendation''
                    (icon_sun_rain_cloud @ variation_selector
                       @ '' Medium Rain - Limited Irrigation'')
                    (''May rain today. Reduce irrigation by ~50%. Wx: '' @ wx)
                    ''medium''
                    ''irrigation''
                    ts
                    ''Use minimal irrigation and monitor.''
                    (icon_sun_rain_cloud @ variation_selector))
            else if sm = None then
              Inr (alert_dict ''irrigation_recommendation''
                    (icon_sun_small_cloud @ variation_selector
                       @ '' Normal Weather - Sensor Offline'')
                    (''Normal conditions. Soil sensor data unavailable. Wx: '' @ wx)
                    ''low''
                    ''irrigation''
                    ts
                    ''Check sensor and follow your usual schedule.''
                    (icon_sun_small_cloud @ variation_selector))
            else if total_rain = 0 \<and> curr_rain = 0 \<and> 25 < t \<and> h < 60 then
              Inr (alert_dict ''irrigation_recommendation''
                    (icon_sun @ variation_selector @ '' Perfect Irrigation Day'')
                    (''Sunny and dry. Wx: '' @ wx)
                    ''low''
                    ''irrigation''
                    ts
                    ''Proceed with normal schedule.''
                    (icon_sun @ variation_selector))
            else
              Inr (alert_dict ''irrigation_recommendation''
                    (icon_sun_small_cloud @ variation_selector
                       @ '' Normal Weather - Regular Irrigation'')
                    (''Normal conditions. Wx: '' @ wx)
                    ''low''
                    ''irrigation''
                    ts
                    ''Follow your regular schedule.''
                    (icon_sun_small_cloud @ variation_selector))))"

definition weather_data_unavailable :: "string \<Rightarrow> alert" where
  "weather_data_unavailable now =
     alert_dict ''irrigation_recommendation''
       (icon_warning @ variation_selector @ '' Weather Data Unavailable'')
       ''Unable to fetch weather data.''
       ''medium''
       ''irrigation''
       now
       ''Check conditions manually.''
       (icon_warning @ variation_selector)"

definition check_weather_irrigation_recommendation :: "fetches \<Rightarrow> string \<Rightarrow> py_error + alert" where
  "check_weather_irrigation_recommendation fs now =
     (case irrigation_try fs now of
        Inr a \<Rightarrow> Inr a
      | Inl e \<Rightarrow> Inr (weather_data_unavailable now))"

text \<open>The three entry points of the evaluator, as \<^verbatim>\<open>api_run_alerts\<close> calls them.\<close>

datatype tree = RainTree | TankTree | IrrigationTree

fun evaluate :: "tree \<Rightarrow> world \<Rightarrow> alert option" where
  "evaluate RainTree env = check_rain_alert env"
| "evaluate TankTree env = check_water_tank_alert env"
| "evaluate IrrigationTree env =
     (case check_weather_irrigation_recommendation (live_fetches env) (now_utc_iso env) of
        Inr a \<Rightarrow> Some a
      | Inl e \<Rightarrow> None)"

section \<open>The alert sink\<close>

text \<open>
  A row of the table \<^verbatim>\<open>alert_history\<close> (lines 119-129). \<^verbatim>\<open>id\<close> is
  \<^verbatim>\<open>INTEGER PRIMARY KEY AUTOINCREMENT\<close>: larger than every id of the table, whose rows are
  never deleted. \<^verbatim>\<open>userid\<close> and \<^verbatim>\<open>created_at\<close> may be NULL, the other columns are
  \<^verbatim>\<open>NOT NULL\<close>. The foreign key on \<^verbatim>\<open>userid\<close> is not enforced (SQLite enforces none
  unless \<^verbatim>\<open>PRAGMA foreign_keys\<close> is set, and the program never sets it). A failure of the
  database itself (no file, a locked table) is outside the model.
\<close>

record db_row =
  row_id :: nat
  row_userid :: "string option"
  row_alert_type :: pyval
  row_title :: pyval
  row_message :: pyval
  row_severity :: pyval
  row_category :: pyval
  row_created_at :: pyval

definition next_id :: "db_row list \<Rightarrow> nat" where
  "next_id rows = Suc (fold max (map row_id rows) 0)"

text \<open>\<^verbatim>\<open>d[k]\<close>, which raises \<^verbatim>\<open>KeyError\<close> on a missing key.\<close>

definition subscript :: "alert \<Rightarrow> string \<Rightarrow> py_error + pyval" where
  "subscript d k = (case map_of d k of None \<Rightarrow> Inl KeyError | Some v \<Rightarrow> Inr v)"

text \<open>
  \<^verbatim>\<open>save_alert_to_db\<close> (lines 135-153) on the rows of \<^verbatim>\<open>alert_history\<close>: the new rows, or
  the exception raised, in which case the table is as it was.
\<close>

definition save_alert_to_db :: "alert \<Rightarrow> string option \<Rightarrow> db_row list \<Rightarrow> py_error + db_row list" where
  "save_alert_to_db alert_data userid rows =
     (let alert_type = (case map_of alert_data ''type'' of None \<Rightarrow> VStr ''unknown'' | Some v \<Rightarrow> v) in
      case subscript alert_data ''title'' of Inl e \<Rightarrow> Inl e | Inr title \<Rightarrow>
      case subscript alert_data ''message'' of Inl e \<Rightarrow> Inl e | Inr message \<Rightarrow>
      case subscript alert_data ''severity'' of Inl e \<Rightarrow> Inl e | Inr severity \<Rightarrow>
      case subscript alert_data ''category'' of Inl e \<Rightarrow> Inl e | Inr category \<Rightarrow>
      case subscript alert_data ''timestamp'' of Inl e \<Rightarrow> Inl e | Inr timestamp \<Rightarrow>
        if VNone \<in> set [alert_type, title, message, severity, category] then Inl IntegrityError
        else Inr (rows @ [\<lparr>row_id = next_id rows,
                            row_userid = userid,
                            row_alert_type = alert_type,
                            row_title = title,
                            row_message = message,
                            row_severity = severity,
                            row_category = category,
                            row_created_at = timestamp\<rparr>]))"

text \<open>
  The state the sink writes: the global list \<^verbatim>\<open>FARMER_ALERTS\<close> and the table. \<^verbatim>\<open>add_alert\<close>
  (lines 284-288) takes \<^verbatim>\<open>None\<close> or a dict; it returns the exception that escaped it, if
  any, and the new state. The append to the feed comes first and stays when the write
  to the table raises.
\<close>

record sink =
  FARMER_ALERTS :: "alert list"
  alert_history :: "db_row list"

definition add_alert :: "alert option \<Rightarrow> string option \<Rightarrow> sink \<Rightarrow> py_error option \<times> sink" where
  "add_alert alert save_for_user s =
     (case alert of
        None \<Rightarrow> (None, s)
      | Some a \<Rightarrow>
          if a = [] then (None, s)
          else
            (let s1 = s\<lparr>FARMER_ALERTS := FARMER_ALERTS s @ [a]\<rparr> in
             case save_alert_to_db a save_for_user (alert_history s1) of
               Inl e \<Rightarrow> (Some e, s1)
             | Inr rows \<Rightarrow> (None, s1\<lparr>alert_history := rows\<rparr>)))"

section \<open>The dashboard and the crop recommendation\<close>

text \<open>\<^verbatim>\<open>str.capitalize()\<close> on ASCII letters.\<close>

definition ascii_upper :: "char \<Rightarrow> char" where
  "ascii_upper c =
     (case map_of (zip ''abcdefghijklmnopqrstuvwxyz'' ''ABCDEFGHIJKLMNOPQRSTUVWXYZ'') c of
        None \<Rightarrow> c | Some u \<Rightarrow> u)"

definition ascii_lower :: "char \<Rightarrow> char" where
  "ascii_lower c =
     (case map_of (zip ''ABCDEFGHIJKLMNOPQRSTUVWXYZ'' ''abcdefghijklmnopqrstuvwxyz'') c of
        None \<Rightarrow> c | Some l \<Rightarrow> l)"

fun capitalize :: "string \<Rightarrow> string" where
  "capitalize [] = []"
| "capitalize (c # cs) = ascii_upper c # map ascii_lower cs"

text \<open>
  \<^verbatim>\<open>_moisture_bucket_from_pct\<close> (lines 724-737). Its argument is \<open>None\<close> when \<^verbatim>\<open>float(pct)\<close>
  raises (\<^verbatim>\<open>pct\<close> is \<^verbatim>\<open>None\<close> or not a number), else the float.
\<close>

definition moisture_bucket_from_pct :: "real option \<Rightarrow> string" where
  "moisture_bucket_from_pct pct =
     (case pct of
        None \<Rightarrow> ''unknown''
      | Some v \<Rightarrow>
          if 90 \<le> v then ''flooded''
          else if 70 < v then ''high''
          else if 40 \<le> v then ''medium''
          else ''low'')"

text \<open>
  \<^verbatim>\<open>dashboard\<close> (lines 665-812). The session holds the user name when someone is logged
  in; \<open>selected_soil\<close> is what the function computes from the request
  (\<^verbatim>\<open>(request.form.get("soil_type") or "").strip() or None\<close> for a POST, \<^verbatim>\<open>None\<close> for a GET).

  The recommendation of lines 743-797 is a pandas computation over \<^verbatim>\<open>CROPS_DF\<close>, the table
  read from \<^verbatim>\<open>cropsnew.csv\<close>, which is not among the sources. It is the parameter
  \<open>recommend\<close>: the rows it keeps for a soil reading, the live bucket and the selected
  soil type; \<open>crop_name\<close> is \<^verbatim>\<open>c.get("Crop")\<close> of a row, \<open>None\<close> when it is missing or falsy.

  The result holds what is flashed, what is stored in \<^verbatim>\<open>session['recommended_crops']\<close>
  (\<open>None\<close> when nothing is stored) and the arguments of \<^verbatim>\<open>render_template\<close>; the keys \<^verbatim>\<open>irrigation\<close>, \<^verbatim>\<open>tank_level\<close> and
  \<^verbatim>\<open>current_time\<close> of \<^verbatim>\<open>data\<close>, which depend on nothing modelled here, are left out.
\<close>

record 'c page =
  page_username :: string
  page_selected_soil :: "string option"
  data_soil :: "soil option"
  data_weather :: weather
  data_crops :: "'c list"
  data_soil_category :: string

datatype 'c response = Redirect string | Render "'c page"

record 'c dashboard_result =
  response :: "'c response"
  flashed :: "(string \<times> string) list"
  session_recommended_crops :: "string list option"

definition dashboard ::
  "(soil \<Rightarrow> string \<Rightarrow> string option \<Rightarrow> 'c list) \<Rightarrow> ('c \<Rightarrow> string option) \<Rightarrow>
   string option \<Rightarrow> string option \<Rightarrow> world \<Rightarrow> 'c dashboard_result" where
  "dashboard recommend crop_name session_username selected_soil env =
     (case session_username of
        None \<Rightarrow>
          \<lparr>response = Redirect ''login'',
           flashed = [(''Please login first.'', ''error'')],
           session_recommended_crops = None\<rparr>
      | Some username \<Rightarrow>
          (let soil = get_soil_data (soil_resp env);
               weather = get_weather_data (weather_resp env)
           in case soil of
                None \<Rightarrow>
                  \<lparr>response = Render
                     \<lparr>page_username = username,
                      page_selected_soil = selected_soil,
                      data_soil = None,
                      data_weather = weather,
                      data_crops = [],
                      data_soil_category = ''Unknown''\<rparr>,
                   flashed = [(''No live soil sensor data. Connect ESP32 to see crop recommendations.'',
                               ''warning'')],
                   session_recommended_crops = Some []\<rparr>
              | Some sl \<Rightarrow>
                  (let live_bucket = moisture_bucket_from_pct (Some (s_moisture sl));
                       moisture_category =
                         (if live_bucket = ''unknown'' then ''Unknown'' else capitalize live_bucket);
                       recommended = recommend sl live_bucket selected_soil
                   in \<lparr>response = Render
                         \<lparr>page_username = username,
                          page_selected_soil = selected_soil,
                          data_soil = Some sl,
                          data_weather = weather,
                          data_crops = recommended,
                          data_soil_category = moisture_category\<rparr>,
                       flashed = [],
                       session_recommended_crops = Some (List.map_filter crop_name recommended)\<rparr>)))"

section \<open>Alerts the table can store, and example inputs\<close>

text \<open>
  What \<open>save_alert_to_db\<close> needs of an alert: the keys it subscripts are there, and no
  value that goes into a \<^verbatim>\<open>NOT NULL\<close> column is \<^verbatim>\<open>None\<close>.
\<close>

definition has_required_fields :: "alert \<Rightarrow> bool" where
  "has_required_fields a \<longleftrightarrow>
     list_all (\<lambda>k. case map_of a k of None \<Rightarrow> False | Some v \<Rightarrow> v \<noteq> VNone)
       [''title'', ''message'', ''severity'', ''category''] \<and>
     map_of a ''timestamp'' \<noteq> None \<and>
     map_of a ''type'' \<noteq> Some VNone"

text \<open>
  Example inputs. In \<open>heavy_forecast_world\<close> the provider forecasts 6 mm of rain for
  today, the current-weather request fails (so the defaults 22, 70, 0, 5 are used), the
  soil request fails, and the tank request reads 4.75 cm. \<open>dry_world\<close> is the same with
  no rain forecast.
\<close>

definition half_full_tank :: esp32_json where
  "half_full_tank =
     \<lparr>j_soil_pct = None, j_temp_c = None, j_humidity_pct = None, j_ultrasonic_cm = Some (19 / 4)\<rparr>"

definition heavy_forecast_world :: world where
  "heavy_forecast_world =
     \<lparr>weather_resp = None,
      forecast_resp = Some [\<lparr>dt_is_today = True, dt_hhmm = ''09:00'', rain_3h = Some 6,
                              weather_description = ''heavy rain'', item_humidity = 90\<rparr>],
      soil_resp = None,
      tank_resp = Some half_full_tank,
      now_utc_iso = ''2025-01-01T07:00:00+00:00'',
      float_repr = (\<lambda>x. ''0.0'')\<rparr>"


text \<open>
  The alert of the tank tree for the reading of \<open>half_full_tank\<close> (50 per cent, 351 of
  702 cubic centimetres) at the time \<open>ts\<close>, and an evaluation whose weather fetch raises.
\<close>

definition half_full_alert :: "string \<Rightarrow> alert" where
  "half_full_alert ts =
     [(''type'', VStr ''water_alert''),
      (''category'', VStr ''water''),
      (''timestamp'', VStr ts),
      (''message'', VStr (''Water tank is at 50% (351 cm'' @ superscript_three @ '' / 702 cm''
          @ superscript_three @ '').'')),
      (''icon'', VStr icon_droplet),
      (''title'', VStr (icon_droplet @ '' Water Tank Status Update'')),
      (''severity'', VStr ''low''),
      (''recommendation'', VStr ''No immediate action required.'')]"

definition failing_fetches :: fetches where
  "failing_fetches =
     \<lparr>fetch_weather = Inl RequestError, fetch_soil = Inr None, fetch_forecast = Inr []\<rparr>"

definition empty_sink :: sink where
  "empty_sink = \<lparr>FARMER_ALERTS = [], alert_history = []\<rparr>"

section \<open>The tank invariant in the specification's words\<close>


section \<open>Rounding lemmas\<close>



lemma py_round_of_int: "py_round (of_int n) = n"
  by (simp add: py_round_def Let_def)



section \<open>The tank snapshot\<close>













section \<open>Alert dicts, the table, and the example inputs\<close>

lemma alert_dict_get:
  "map_of (alert_dict k t m s c ts r i) ''type'' = Some (VStr k)"
  "map_of (alert_dict k t m s c ts r i) ''title'' = Some (VStr t)"
  "map_of (alert_dict k t m s c ts r i) ''message'' = Some (VStr m)"
  "map_of (alert_dict k t m s c ts r i) ''severity'' = Some (VStr s)"
  "map_of (alert_dict k t m s c ts r i) ''category'' = Some (VStr c)"
  "map_of (alert_dict k t m s c ts r i) ''timestamp'' = Some (VStr ts)"
  "map_of (alert_dict k t m s c ts r i) ''recommendation'' = Some (VStr r)"
  "map_of (alert_dict k t m s c ts r i) ''icon'' = Some (VStr i)"
  by (simp_all add: alert_dict_def)

lemma alert_dict_required: "has_required_fields (alert_dict k t m s c ts r i)"
  by (simp add: has_required_fields_def alert_dict_get)

lemma alert_dict_without_timestamp:
  "without_key ''timestamp'' (alert_dict k t m s c ts r i) =
     [(''type'', VStr k), (''title'', VStr t), (''message'', VStr m), (''severity'', VStr s),
      (''category'', VStr c), (''recommendation'', VStr r), (''icon'', VStr i)]"
  by (simp add: without_key_def alert_dict_def)

lemma has_required_fields_nonempty: "has_required_fields a \<Longrightarrow> a \<noteq> []"
  by (auto simp: has_required_fields_def)


lemma next_id_snoc: "row_id r < next_id (rows @ [r])"
  by (simp add: next_id_def)

lemma save_alert_to_db_ok:
  assumes "has_required_fields a"
  shows "\<exists>row. save_alert_to_db a uid rows = Inr (rows @ [row]) \<and>
           row_id row = next_id rows \<and> row_userid row = uid \<and>
           Some (row_title row) = map_of a ''title'' \<and>
           Some (row_message row) = map_of a ''message'' \<and>
           Some (row_severity row) = map_of a ''severity'' \<and>
           Some (row_category row) = map_of a ''category'' \<and>
           Some (row_created_at row) = map_of a ''timestamp'' \<and>
           row_alert_type row = (case map_of a ''type'' of None \<Rightarrow> VStr ''unknown'' | Some v \<Rightarrow> v)"
  using assms
  by (auto simp: has_required_fields_def save_alert_to_db_def subscript_def Let_def
      split: option.splits)

lemma half_full_snapshot:
  "get_tank_snapshot (Some half_full_tank) =
     Inr \<lparr>ultrasonic_cm = 19 / 4, height_cm = 19 / 4, volume_cm3 = 351, capacity_cm3 = 702,
          percent = 50\<rparr>"
  by (simp add: half_full_tank_def get_tank_snapshot_def Let_def TANK_H1_CM_def TANK_R_CM_def
      PI_CONST_def py_round_def py_round2_def)

lemma str_int_examples:
  "str_int 50 = ''50''" "str_int 351 = ''351''" "str_int 702 = ''702''"
  "str_int 22 = ''22''" "str_int 70 = ''70''" "str_int 5 = ''5''"
  by (simp_all add: str_int_def str_nat.simps digit_char_def)

lemma half_full_evaluate:
  "evaluate TankTree (heavy_forecast_world\<lparr>now_utc_iso := ts\<rparr>) = Some (half_full_alert ts)"
  by (simp add: check_water_tank_alert_def heavy_forecast_world_def half_full_snapshot Let_def
      half_full_alert_def str_int_examples)

section \<open>The rain tree\<close>



section \<open>The tank tree\<close>

text \<open>
  C4: whenever the tank snapshot is read, \<^verbatim>\<open>check_water_tank_alert\<close> returns one alert,
  picked by the first test on \<open>percent\<close> that holds: \<open>percent \<ge> 90\<close> gives the high-severity
  Tank Full alert, \<open>percent \<le> 20\<close> the high-severity Tank Low alert, \<open>percent \<le> 40\<close> the
  medium-severity Getting Low alert, anything else the low-severity status update; and
  the message holds the snapshot's \<open>percent\<close>, \<open>volume_cm3\<close> and \<open>capacity_cm3\<close>.
\<close>

theorem check_water_tank_alert_first_match:
  assumes "get_tank_snapshot (tank_resp env) = Inr snap"
  shows "\<exists>a. check_water_tank_alert env = Some a \<and>
     (map_of a ''title'', map_of a ''severity'') =
       (if 90 \<le> percent snap then
          (Some (VStr (icon_droplet @ '' Water Tank Full'')), Some (VStr ''high''))
        else if percent snap \<le> 20 then
          (Some (VStr (icon_warning @ variation_selector @ '' Water Tank Low'')), Some (VStr ''high''))
        else if percent snap \<le> 40 then
          (Some (VStr (icon_bell @ '' Water Tank Getting Low'')), Some (VStr ''medium''))
        else
          (Some (VStr (icon_droplet @ '' Water Tank Status Update'')), Some (VStr ''low''))) \<and>
     map_of a ''message'' =
       Some (VStr (''Water tank is at '' @ str_int (percent snap) @ ''% (''
         @ str_int (volume_cm3 snap) @ '' cm'' @ superscript_three @ '' / ''
         @ str_int (capacity_cm3 snap) @ '' cm'' @ superscript_three @ '').''))"
  using assms by (simp add: check_water_tank_alert_def Let_def)

text \<open>
  The theorem at \<open>heavy_forecast_world\<close>, whose tank is half full: the alert is the
  status update with 50 per cent, 351 and 702 cubic centimetres in its message.
\<close>

theorem check_water_tank_alert_first_match_witness:
  "get_tank_snapshot (tank_resp heavy_forecast_world) =
     Inr \<lparr>ultrasonic_cm = 19 / 4, height_cm = 19 / 4, volume_cm3 = 351, capacity_cm3 = 702,
          percent = 50\<rparr> \<and>
   (\<exists>a. check_water_tank_alert heavy_forecast_world = Some a \<and>
        map_of a ''title'' = Some (VStr (icon_droplet @ '' Water Tank Status Update'')) \<and>
        map_of a ''severity'' = Some (VStr ''low'') \<and>
        map_of a ''message'' = Some (VStr (''Water tank is at 50% (351 cm'' @ superscript_three
            @ '' / 702 cm'' @ superscript_three @ '').'')))"
proof -
  have snap: "get_tank_snapshot (tank_resp heavy_forecast_world) =
     Inr \<lparr>ultrasonic_cm = 19 / 4, height_cm = 19 / 4, volume_cm3 = 351, capacity_cm3 = 702,
          percent = 50\<rparr>"
    by (simp add: heavy_forecast_world_def half_full_snapshot)
  from check_water_tank_alert_first_match [OF snap] snap show ?thesis
    by (auto simp: str_int_examples)
qed

section \<open>The irrigation tree\<close>




text \<open>
  C6: for every outcome of the three fetches, an exception included,
  \<^verbatim>\<open>check_weather_irrigation_recommendation\<close> returns an alert and raises nothing; when a
  fetch raises, the alert is the medium-severity Weather Data Unavailable alert of
  category irrigation.
\<close>

theorem irrigation_never_raises:
  "(\<exists>a. check_weather_irrigation_recommendation fs now = Inr a) \<and>
   (isl (fetch_weather fs) \<or> isl (fetch_soil fs) \<or> isl (fetch_forecast fs) \<longrightarrow>
      check_weather_irrigation_recommendation fs now = Inr (weather_data_unavailable now)) \<and>
   map_of (weather_data_unavailable now) ''severity'' = Some (VStr ''medium'') \<and>
   map_of (weather_data_unavailable now) ''title'' =
     Some (VStr (icon_warning @ variation_selector @ '' Weather Data Unavailable'')) \<and>
   map_of (weather_data_unavailable now) ''category'' = Some (VStr ''irrigation'')"
proof -
  have a: "\<exists>a. check_weather_irrigation_recommendation fs now = Inr a"
    by (simp add: check_weather_irrigation_recommendation_def split: sum.splits)
  have b: "isl (fetch_weather fs) \<or> isl (fetch_soil fs) \<or> isl (fetch_forecast fs) \<Longrightarrow>
      check_weather_irrigation_recommendation fs now = Inr (weather_data_unavailable now)"
    by (auto simp: check_weather_irrigation_recommendation_def irrigation_try_def isl_def
        split: sum.splits)
  have c: "map_of (weather_data_unavailable now) ''severity'' = Some (VStr ''medium'')"
    "map_of (weather_data_unavailable now) ''title'' =
       Some (VStr (icon_warning @ variation_selector @ '' Weather Data Unavailable''))"
    "map_of (weather_data_unavailable now) ''category'' = Some (VStr ''irrigation'')"
    by (simp_all add: weather_data_unavailable_def alert_dict_get)
  from a b c show ?thesis by blast
qed

text \<open>
  The theorem at \<open>failing_fetches\<close>, whose weather fetch raises.
\<close>

theorem irrigation_never_raises_witness:
  "isl (fetch_weather failing_fetches) \<and>
   check_weather_irrigation_recommendation failing_fetches ''2025-01-01T07:00:00+00:00'' =
     Inr (weather_data_unavailable ''2025-01-01T07:00:00+00:00'')"
  using irrigation_never_raises [of failing_fetches "''2025-01-01T07:00:00+00:00''"]
  by (simp add: failing_fetches_def)

section \<open>The dashboard\<close>

text \<open>
  C8: for every number \<open>m\<close>, \<^verbatim>\<open>_moisture_bucket_from_pct\<close> returns \<^verbatim>\<open>flooded\<close> when
  \<open>m \<ge> 90\<close>, \<^verbatim>\<open>high\<close> when \<open>90 > m > 70\<close>, \<^verbatim>\<open>medium\<close> when \<open>70 \<ge> m \<ge> 40\<close> and \<^verbatim>\<open>low\<close> when
  \<open>m < 40\<close>; it returns \<^verbatim>\<open>unknown\<close> exactly when there is no number.
\<close>

theorem moisture_bucket_breakpoints:
  "(90 \<le> m \<longrightarrow> moisture_bucket_from_pct (Some m) = ''flooded'') \<and>
   (70 < m \<and> m < 90 \<longrightarrow> moisture_bucket_from_pct (Some m) = ''high'') \<and>
   (40 \<le> m \<and> m \<le> 70 \<longrightarrow> moisture_bucket_from_pct (Some m) = ''medium'') \<and>
   (m < 40 \<longrightarrow> moisture_bucket_from_pct (Some m) = ''low'') \<and>
   (moisture_bucket_from_pct pct = ''unknown'' \<longleftrightarrow> pct = None)"
  by (cases pct) (simp_all add: moisture_bucket_from_pct_def)

text \<open>
  The theorem at 95, 80, 70 and 35, one value in each range.
\<close>

theorem moisture_bucket_breakpoints_witness:
  "moisture_bucket_from_pct (Some 95) = ''flooded'' \<and>
   moisture_bucket_from_pct (Some 80) = ''high'' \<and>
   moisture_bucket_from_pct (Some 70) = ''medium'' \<and>
   moisture_bucket_from_pct (Some 35) = ''low'' \<and>
   moisture_bucket_from_pct None = ''unknown''"
  using moisture_bucket_breakpoints [of 95 None] moisture_bucket_breakpoints [of 80 None]
    moisture_bucket_breakpoints [of 70 None] moisture_bucket_breakpoints [of 35 None]
  by simp

text \<open>
  C7: when the soil fetch returns the absent sentinel, the dashboard of a logged-in
  user recommends no crop, whatever the catalogue filter, the weather and the selected
  soil type are, and it says so: the soil of the page is \<^verbatim>\<open>None\<close>, its category is
  \<^verbatim>\<open>Unknown\<close>, and a warning that there is no live soil data is flashed. When the soil
  fetch returns a reading, nothing is flashed, the page holds the reading and a category
  other than \<^verbatim>\<open>Unknown\<close>, also when the filter keeps no crop: the two outcomes differ.
\<close>

theorem dashboard_absent_soil:
  "(get_soil_data (soil_resp env) = None \<longrightarrow>
      dashboard recommend crop_name (Some user) selected_soil env =
        \<lparr>response = Render
           \<lparr>page_username = user, page_selected_soil = selected_soil, data_soil = None,
            data_weather = get_weather_data (weather_resp env), data_crops = [],
            data_soil_category = ''Unknown''\<rparr>,
         flashed = [(''No live soil sensor data. Connect ESP32 to see crop recommendations.'',
                     ''warning'')],
         session_recommended_crops = Some []\<rparr>) \<and>
   (\<forall>sl. get_soil_data (soil_resp env) = Some sl \<longrightarrow>
      (\<exists>page. response (dashboard recommend crop_name (Some user) selected_soil env) = Render page \<and>
         data_soil page = Some sl \<and>
         data_soil_category page \<noteq> ''Unknown'' \<and>
         data_crops page = recommend sl (moisture_bucket_from_pct (Some (s_moisture sl))) selected_soil) \<and>
      flashed (dashboard recommend crop_name (Some user) selected_soil env) = [])"
  by (cases "get_soil_data (soil_resp env)")
     (simp_all add: dashboard_def Let_def moisture_bucket_from_pct_def ascii_upper_def)

text \<open>
  The theorem at \<open>heavy_forecast_world\<close>, whose soil request fails, with a filter that
  would keep one crop.
\<close>

theorem dashboard_absent_soil_witness:
  "get_soil_data (soil_resp heavy_forecast_world) = None \<and>
   dashboard (\<lambda>sl bucket sel. [''Rice'']) Some (Some ''asha'') (Some ''loamy'') heavy_forecast_world =
     \<lparr>response = Render
        \<lparr>page_username = ''asha'', page_selected_soil = Some ''loamy'', data_soil = None,
         data_weather = \<lparr>w_temperature = 22, w_humidity = 70, w_rainfall = PInt 0, w_wind_speed = 5\<rparr>,
         data_crops = [],
         data_soil_category = ''Unknown''\<rparr>,
      flashed = [(''No live soil sensor data. Connect ESP32 to see crop recommendations.'',
                  ''warning'')],
      session_recommended_crops = Some []\<rparr>"
  using dashboard_absent_soil [of heavy_forecast_world "\<lambda>sl bucket sel. [''Rice'']" Some "''asha''"
      "Some ''loamy''"]
  by (simp add: heavy_forecast_world_def get_soil_data_def get_weather_data_def)

section \<open>The sink\<close>




section \<open>Evaluating twice\<close>

lemma rain_alert_fields:
  "check_rain_alert env = Some a \<Longrightarrow>
     has_required_fields a \<and> map_of a ''timestamp'' = Some (VStr (now_utc_iso env))"
  unfolding check_rain_alert_def Let_def
  by (auto simp: alert_dict_required alert_dict_get split: if_splits option.splits)

lemma tank_alert_fields:
  "check_water_tank_alert env = Some a \<Longrightarrow>
     has_required_fields a \<and> map_of a ''timestamp'' = Some (VStr (now_utc_iso env))"
  unfolding check_water_tank_alert_def Let_def
  by (auto simp: has_required_fields_def split: if_splits sum.splits)

lemma irrigation_alert_fields:
  "check_weather_irrigation_recommendation fs now = Inr a \<Longrightarrow>
     has_required_fields a \<and> map_of a ''timestamp'' = Some (VStr now)"
  unfolding check_weather_irrigation_recommendation_def irrigation_try_def Let_def
    weather_data_unavailable_def
  by (auto simp: alert_dict_required alert_dict_get split: if_splits sum.splits)

lemma evaluate_fields:
  "evaluate tr env = Some a \<Longrightarrow>
     has_required_fields a \<and> map_of a ''timestamp'' = Some (VStr (now_utc_iso env))"
  by (cases tr)
     (auto dest: rain_alert_fields tank_alert_fields irrigation_alert_fields split: sum.splits)

lemma rain_alert_clock:
  "map_option (without_key ''timestamp'') (check_rain_alert (env\<lparr>now_utc_iso := t\<rparr>)) =
   map_option (without_key ''timestamp'') (check_rain_alert env)"
  by (simp add: check_rain_alert_def Let_def alert_dict_without_timestamp split: option.splits)

lemma tank_alert_clock:
  "map_option (without_key ''timestamp'') (check_water_tank_alert (env\<lparr>now_utc_iso := t\<rparr>)) =
   map_option (without_key ''timestamp'') (check_water_tank_alert env)"
  by (simp add: check_water_tank_alert_def Let_def without_key_def split: sum.splits)

lemma irrigation_try_clock:
  "map_sum id (without_key ''timestamp'') (irrigation_try fs t) =
   map_sum id (without_key ''timestamp'') (irrigation_try fs t')"
  by (cases "fetch_weather fs"; cases "fetch_soil fs"; cases "fetch_forecast fs")
     (simp_all add: irrigation_try_def Let_def alert_dict_without_timestamp)

lemma irrigation_alert_clock:
  "map_sum id (without_key ''timestamp'') (check_weather_irrigation_recommendation fs t) =
   map_sum id (without_key ''timestamp'') (check_weather_irrigation_recommendation fs t')"
  using irrigation_try_clock [of fs t t']
  by (cases "irrigation_try fs t"; cases "irrigation_try fs t'")
     (simp_all add: check_weather_irrigation_recommendation_def weather_data_unavailable_def
        alert_dict_without_timestamp)

lemma evaluate_clock:
  "map_option (without_key ''timestamp'') (evaluate tr (env\<lparr>now_utc_iso := t\<rparr>)) =
   map_option (without_key ''timestamp'') (evaluate tr env)"
proof (cases tr)
  case RainTree
  then show ?thesis by (simp add: rain_alert_clock)
next
  case TankTree
  then show ?thesis by (simp add: tank_alert_clock)
next
  case IrrigationTree
  have "live_fetches (env\<lparr>now_utc_iso := t\<rparr>) = live_fetches env"
    by (simp add: live_fetches_def)
  with IrrigationTree show ?thesis
    using irrigation_alert_clock [of "live_fetches env" t "now_utc_iso env"]
    by (auto split: sum.splits)
qed

text \<open>
  C9: for fixed upstream inputs, an alert tree evaluated at the time \<open>t1\<close> and again at
  the time \<open>t2\<close> gives two alerts that agree in every field but \<^verbatim>\<open>timestamp\<close>, which holds
  \<open>t1\<close> in the first and \<open>t2\<close> in the second; recording both appends the two, in this
  order, to the feed, and two rows with different ids to the table: nothing is
  deduplicated.
\<close>

theorem evaluate_twice_no_dedup:
  assumes "evaluate tr (env\<lparr>now_utc_iso := t1\<rparr>) = Some a1"
  shows "\<exists>a2 r1 r2.
     evaluate tr (env\<lparr>now_utc_iso := t2\<rparr>) = Some a2 \<and>
     without_key ''timestamp'' a2 = without_key ''timestamp'' a1 \<and>
     map_of a1 ''timestamp'' = Some (VStr t1) \<and>
     map_of a2 ''timestamp'' = Some (VStr t2) \<and>
     add_alert (Some a1) uid s =
       (None, s\<lparr>FARMER_ALERTS := FARMER_ALERTS s @ [a1],
                alert_history := alert_history s @ [r1]\<rparr>) \<and>
     add_alert (Some a2) uid (snd (add_alert (Some a1) uid s)) =
       (None, s\<lparr>FARMER_ALERTS := FARMER_ALERTS s @ [a1, a2],
                alert_history := alert_history s @ [r1, r2]\<rparr>) \<and>
     row_id r1 < row_id r2 \<and>
     row_created_at r1 = VStr t1 \<and> row_created_at r2 = VStr t2"
proof -
  from evaluate_clock [where tr = tr and env = env and t = t1]
    evaluate_clock [where tr = tr and env = env and t = t2] assms
  obtain a2 where a2: "evaluate tr (env\<lparr>now_utc_iso := t2\<rparr>) = Some a2"
    and same: "without_key ''timestamp'' a2 = without_key ''timestamp'' a1"
    by (cases "evaluate tr (env\<lparr>now_utc_iso := t2\<rparr>)"; cases "evaluate tr env") auto
  from evaluate_fields [OF assms] have f1: "has_required_fields a1"
    and ts1: "map_of a1 ''timestamp'' = Some (VStr t1)" by simp_all
  from evaluate_fields [OF a2] have f2: "has_required_fields a2"
    and ts2: "map_of a2 ''timestamp'' = Some (VStr t2)" by simp_all
  from save_alert_to_db_ok [OF f1, of uid "alert_history s"]
  obtain r1 where r1: "save_alert_to_db a1 uid (alert_history s) = Inr (alert_history s @ [r1])"
    and c1: "Some (row_created_at r1) = map_of a1 ''timestamp''" by blast
  from save_alert_to_db_ok [OF f2, of uid "alert_history s @ [r1]"]
  obtain r2 where r2: "save_alert_to_db a2 uid (alert_history s @ [r1]) = Inr (alert_history s @ [r1, r2])"
    and id2: "row_id r2 = next_id (alert_history s @ [r1])"
    and c2: "Some (row_created_at r2) = map_of a2 ''timestamp''" by auto
  have first: "add_alert (Some a1) uid s =
       (None, s\<lparr>FARMER_ALERTS := FARMER_ALERTS s @ [a1],
                alert_history := alert_history s @ [r1]\<rparr>)"
    using r1 has_required_fields_nonempty [OF f1] by (simp add: add_alert_def Let_def)
  have second: "add_alert (Some a2) uid (snd (add_alert (Some a1) uid s)) =
       (None, s\<lparr>FARMER_ALERTS := FARMER_ALERTS s @ [a1, a2],
                alert_history := alert_history s @ [r1, r2]\<rparr>)"
    unfolding first using r2 has_required_fields_nonempty [OF f2]
    by (simp add: add_alert_def Let_def)
  have "row_id r1 < row_id r2" using id2 next_id_snoc [of r1 "alert_history s"] by simp
  moreover have "row_created_at r1 = VStr t1" "row_created_at r2 = VStr t2"
    using c1 c2 ts1 ts2 by simp_all
  ultimately show ?thesis using a2 same ts1 ts2 first second by blast
qed

text \<open>
  The theorem at the tank tree in \<open>heavy_forecast_world\<close>, evaluated at 06:00 and at
  18:00 and recorded in the empty sink.
\<close>

theorem evaluate_twice_no_dedup_witness:
  "\<exists>a2 r1 r2.
     evaluate TankTree (heavy_forecast_world\<lparr>now_utc_iso := ''2025-01-01T18:00:00+00:00''\<rparr>) = Some a2 \<and>
     without_key ''timestamp'' a2 =
       without_key ''timestamp'' (half_full_alert ''2025-01-01T06:00:00+00:00'') \<and>
     map_of (half_full_alert ''2025-01-01T06:00:00+00:00'') ''timestamp'' =
       Some (VStr ''2025-01-01T06:00:00+00:00'') \<and>
     map_of a2 ''timestamp'' = Some (VStr ''2025-01-01T18:00:00+00:00'') \<and>
     add_alert (Some (half_full_alert ''2025-01-01T06:00:00+00:00'')) None empty_sink =
       (None, empty_sink\<lparr>FARMER_ALERTS := FARMER_ALERTS empty_sink
                  @ [half_full_alert ''2025-01-01T06:00:00+00:00''],
                alert_history := alert_history empty_sink @ [r1]\<rparr>) \<and>
     add_alert (Some a2) None
         (snd (add_alert (Some (half_full_alert ''2025-01-01T06:00:00+00:00'')) None empty_sink)) =
       (None, empty_sink\<lparr>FARMER_ALERTS := FARMER_ALERTS empty_sink
                  @ [half_full_alert ''2025-01-01T06:00:00+00:00'', a2],
                alert_history := alert_history empty_sink @ [r1, r2]\<rparr>) \<and>
     row_id r1 < row_id r2 \<and>
     row_created_at r1 = VStr ''2025-01-01T06:00:00+00:00'' \<and>
     row_created_at r2 = VStr ''2025-01-01T18:00:00+00:00''"
  by (rule evaluate_twice_no_dedup) (rule half_full_evaluate)

end
